theory Spec2Isabelle
  imports Complex_Main "HOL-Library.Sublist"
begin

section \<open>Values of the server\<close>

text \<open>
  The server is one Express application (\<^verbatim>\<open>src/unnamed/part_000\<close>). Its handlers are
  embedded as functions from the request fields, the stored user collection and the
  answers of the external collaborators to an outcome: the HTTP response, the collection
  afterwards, the external calls made (in order) and the errors written to the console.

  A JavaScript \<^verbatim>\<open>Date\<close> is its number of milliseconds since the epoch. Every
  \<^verbatim>\<open>new Date()\<close> and \<^verbatim>\<open>Date.now\<close> of one request reads the same clock value,
  the field \<open>now\<close> of the request's world.
\<close>

type_synonym date = int

text \<open>
  A JavaScript \<^verbatim>\<open>number\<close>: a finite double is the rational it denotes (both zeros
  are \<open>Num 0\<close>); the handlers only test numbers for truthiness and pass them on.
\<close>

datatype number = Num rat | PosInfinity | NegInfinity | NaN

fun truthy_number :: "number \<Rightarrow> bool" where
  "truthy_number (Num r) = (r \<noteq> 0)"
| "truthy_number PosInfinity = True"
| "truthy_number NegInfinity = True"
| "truthy_number NaN = False"

text \<open>
  A destructured body field is \<open>None\<close> when the body does not carry it
  (\<^verbatim>\<open>undefined\<close>). \<^verbatim>\<open>!x\<close> holds for \<^verbatim>\<open>undefined\<close>, for the number zero and
  \<^verbatim>\<open>NaN\<close>, and for the empty string; an object is always truthy.
\<close>

definition falsy_number :: "number option \<Rightarrow> bool" where
  "falsy_number x = (case x of None \<Rightarrow> True | Some n \<Rightarrow> \<not> truthy_number n)"

definition falsy_string :: "string option \<Rightarrow> bool" where
  "falsy_string x = (case x of None \<Rightarrow> True | Some s \<Rightarrow> s = [])"

text \<open>
  \<^verbatim>\<open>String.prototype.toLowerCase\<close> on the ASCII range: the letters A to Z (codes 65
  to 90) move to a to z, every other character stays.
\<close>

definition lower_char :: "char \<Rightarrow> char" where
  "lower_char c =
     (let n = (of_char c :: nat) in if 65 \<le> n \<and> n \<le> 90 then char_of (n + 32) else c)"

definition toLowerCase :: "string \<Rightarrow> string" where
  "toLowerCase s = map lower_char s"

definition RECIPIENT_WALLET :: string where
  "RECIPIENT_WALLET = ''0x486BEa6B90243d2Ff3EE2723a47605C3361c3d95''"

section \<open>The stored documents\<close>

text \<open>The interface \<^verbatim>\<open>InvestmentRecord\<close> (lines 50 to 56).\<close>

record investmentRecord =
  amount :: number
  riskLevel :: string
  tokenPrice :: number
  transactionHash :: string
  timestamp :: date

text \<open>
  A document of the \<^verbatim>\<open>users\<close> collection. The store itself has no schema, so a
  document has every field an update of the handlers names: the three paths of
  \<^verbatim>\<open>userSchema\<close> and, beside them, \<^verbatim>\<open>chainId\<close> and \<^verbatim>\<open>investments\<close>. A date
  or a chain identifier that is absent is \<open>None\<close>; an absent array is the empty list.
\<close>

record user =
  walletAddress :: string
  firstSeen :: "date option"
  lastSeen :: "date option"
  chainId :: "string option"
  investments :: "investmentRecord list"

datatype path = WalletAddress | FirstSeen | LastSeen | ChainId | Investments

text \<open>
  \<^verbatim>\<open>userSchema\<close> (lines 77 to 92) declares three paths. \<^verbatim>\<open>investmentSchema\<close>
  (lines 69 to 75) is defined but attached to no path of it.
\<close>

definition userSchema :: "path list" where
  "userSchema = [WalletAddress, FirstSeen, LastSeen]"

section \<open>The object-document mapper\<close>

text \<open>
  The handlers reach the store through one library call, \<^verbatim>\<open>findOneAndUpdate\<close>, and
  one read, \<^verbatim>\<open>findOne\<close>, of the model \<^verbatim>\<open>User\<close> built from \<^verbatim>\<open>userSchema\<close>.
  The schema is strict (the library's default; neither the schema nor any call of the
  handlers passes a \<^verbatim>\<open>strict\<close> option): an update of a path that the schema does not
  declare is removed before the update reaches the store.

  The library is not part of the sources; one point of its behaviour that the sources
  do not fix is a parameter of the model:
  \<^item> \<open>insertDefaults\<close>: whether an upsert that inserts applies the schema's defaults
    when the call does not pass \<^verbatim>\<open>setDefaultsOnInsert\<close>.

  \<^verbatim>\<open>POST /api/user\<close> passes \<^verbatim>\<open>setDefaultsOnInsert: true\<close>; the upsert of
  \<^verbatim>\<open>POST /api/invest\<close> does not pass the option. An update is the list of its
  operators in the order the source writes them.
\<close>

record odm =
  insertDefaults :: bool

datatype update_op =
    SetLastSeen date
  | SetChainId "string option"
  | PushInvestments investmentRecord

fun op_path :: "update_op \<Rightarrow> path" where
  "op_path (SetLastSeen _) = LastSeen"
| "op_path (SetChainId _) = ChainId"
| "op_path (PushInvestments _) = Investments"

definition castUpdate :: "path list \<Rightarrow> update_op list \<Rightarrow> update_op list" where
  "castUpdate schema upd = filter (\<lambda>x. op_path x \<in> set schema) upd"

fun apply_op :: "user \<Rightarrow> update_op \<Rightarrow> user" where
  "apply_op d (SetLastSeen t) = d\<lparr>lastSeen := Some t\<rparr>"
| "apply_op d (SetChainId c) = d\<lparr>chainId := c\<rparr>"
| "apply_op d (PushInvestments r) = d\<lparr>investments := investments d @ [r]\<rparr>"

definition apply_update :: "update_op list \<Rightarrow> user \<Rightarrow> user" where
  "apply_update upd d = foldl apply_op d upd"

text \<open>The options object of a call; an option the call does not pass is \<open>None\<close>.\<close>

record options =
  new :: bool
  upsert :: bool
  setDefaultsOnInsert :: "bool option"

text \<open>
  What one request meets outside the handler: the clock, the answer of the price
  provider (a rejection, or the parsed JSON object of type \<^verbatim>\<open>PriceResponse\<close> as a
  map from token identifiers to their entry; the entry is its \<^verbatim>\<open>usd\<close> quote, \<open>None\<close>
  when the entry has no \<^verbatim>\<open>usd\<close>; a numeral too large for a double parses to
  \<^verbatim>\<open>Infinity\<close>), the
  transaction service \<^verbatim>\<open>sendTransaction\<close> of \<^verbatim>\<open>walletService\<close> (not part of the
  sources; it is called with amount, token price, recipient and risk level and either
  rejects with a message or returns the transaction hash), whether the database rejects
  the operation of this request (with its message), and the date parser behind
  \<^verbatim>\<open>new Date(string)\<close> (\<open>None\<close> is \<^verbatim>\<open>Invalid Date\<close>).
\<close>

text \<open>
  A rejection of the HTTP client: the message of the error and, when the error object
  has a \<^verbatim>\<open>response\<close> property, the text of the second console line (the response
  data, or \<^verbatim>\<open>No response data\<close>).
\<close>

datatype http_error = HttpError string "string option"

record world =
  now :: date
  coingecko :: "http_error + (string \<rightharpoonup> number option)"
  sendTransaction :: "number \<Rightarrow> number \<Rightarrow> string \<Rightarrow> string \<Rightarrow> string + string"
  dbFailure :: "string option"
  parseDate :: "string \<Rightarrow> date option"

text \<open>The first document with the given address is replaced by its update.\<close>

fun update_first :: "string \<Rightarrow> (user \<Rightarrow> user) \<Rightarrow> user list \<Rightarrow> user list" where
  "update_first a f [] = []"
| "update_first a f (d # ds) =
     (if walletAddress d = a then f d # ds else d # update_first a f ds)"

text \<open>
  The document an upsert inserts: the equality condition of the filter, through the
  schema's \<^verbatim>\<open>lowercase: true\<close> setter, and the defaults \<^verbatim>\<open>Date.now\<close> of
  \<^verbatim>\<open>firstSeen\<close> and \<^verbatim>\<open>lastSeen\<close> when defaults are applied on insert.
\<close>

definition inserted :: "odm \<Rightarrow> world \<Rightarrow> options \<Rightarrow> string \<Rightarrow> user" where
  "inserted m w opts a =
     (let dflt = (case setDefaultsOnInsert opts of Some b \<Rightarrow> b | None \<Rightarrow> insertDefaults m);
          t = (if dflt then Some (now w) else None)
      in \<lparr>walletAddress = toLowerCase a, firstSeen = t, lastSeen = t,
          chainId = None, investments = []\<rparr>)"

text \<open>
  \<^verbatim>\<open>User.findOneAndUpdate({walletAddress: a}, upd, opts)\<close>: a rejection of the
  database, or the returned document (\<^verbatim>\<open>null\<close> is \<open>None\<close>) and the collection
  afterwards.
\<close>

definition findOneAndUpdate ::
  "odm \<Rightarrow> world \<Rightarrow> path list \<Rightarrow> string \<Rightarrow> update_op list \<Rightarrow> options \<Rightarrow> user list
     \<Rightarrow> string + (user option \<times> user list)" where
  "findOneAndUpdate m w schema a upd opts db =
     (case dbFailure w of
        Some e \<Rightarrow> Inl e
      | None \<Rightarrow>
          (let u = castUpdate schema upd in
           case find (\<lambda>d. walletAddress d = a) db of
             Some d \<Rightarrow>
               Inr (Some (if new opts then apply_update u d else d),
                    update_first a (apply_update u) db)
           | None \<Rightarrow>
               if upsert opts then
                 (let d' = apply_update u (inserted m w opts a)
                  in Inr (if new opts then Some d' else None, db @ [d']))
               else Inr (None, db)))"

text \<open>\<^verbatim>\<open>User.findOne({walletAddress: a})\<close>.\<close>

definition findOne :: "world \<Rightarrow> string \<Rightarrow> user list \<Rightarrow> string + user option" where
  "findOne w a db =
     (case dbFailure w of
        Some e \<Rightarrow> Inl e
      | None \<Rightarrow> Inr (find (\<lambda>d. walletAddress d = a) db))"

section \<open>Responses and outcomes\<close>

text \<open>
  What \<^verbatim>\<open>res.json\<close> leaves of a number-valued field: a finite number is written as
  itself, \<^verbatim>\<open>Infinity\<close>, \<^verbatim>\<open>-Infinity\<close> and \<^verbatim>\<open>NaN\<close> are written as
  \<^verbatim>\<open>null\<close>, and a field whose value is \<^verbatim>\<open>undefined\<close> is left out.
\<close>

datatype json_number = JNumber rat | JNull | JAbsent

fun to_json :: "number option \<Rightarrow> json_number" where
  "to_json None = JAbsent"
| "to_json (Some (Num r)) = JNumber r"
| "to_json (Some PosInfinity) = JNull"
| "to_json (Some NegInfinity) = JNull"
| "to_json (Some NaN) = JNull"

text \<open>Whether a price field holds a positive number.\<close>

definition positive_price :: "json_number \<Rightarrow> bool" where
  "positive_price p = (case p of JNumber r \<Rightarrow> 0 < r | _ \<Rightarrow> False)"

text \<open>
  The JSON bodies the handlers send. \<open>Price\<close> carries price, currency, token identifier
  and timestamp; \<open>Invested\<close> the amount and risk level quoted in the message, the
  transaction hash and the timestamp; \<open>UserView\<close> the three fields of the user object;
  \<open>Message\<close> a message alone; \<open>Failure\<close> a message and the error text.
\<close>

datatype payload =
    Price json_number string string date
  | Invested number string string date
  | UserView string "date option" "date option"
  | Message string
  | Failure string string

record response =
  status :: nat
  success :: bool
  payload :: payload

datatype call = HttpGet string | SendTransaction | FindOneAndUpdate | FindOne

record outcome =
  resp :: response
  store :: "user list"
  calls :: "call list"
  logged :: "string list"

definition reply :: "nat \<Rightarrow> bool \<Rightarrow> payload \<Rightarrow> user list \<Rightarrow> call list \<Rightarrow> string list \<Rightarrow> outcome" where
  "reply st ok p db cs ls =
     \<lparr>resp = \<lparr>status = st, success = ok, payload = p\<rparr>, store = db, calls = cs, logged = ls\<rparr>"

section \<open>The handlers\<close>

subsection \<open>GET /api/fetchsonicprice (lines 103 to 146)\<close>

definition COINGECKO_URL :: string where
  "COINGECKO_URL = ''https://api.coingecko.com/api/v3/simple/price''"

text \<open>
  \<^verbatim>\<open>response.data[tokenId].usd\<close> throws a \<^verbatim>\<open>TypeError\<close> when the object has no
  entry for the token, and is \<^verbatim>\<open>undefined\<close> when the entry has no \<^verbatim>\<open>usd\<close>. The
  \<^verbatim>\<open>catch\<close> turns every error into a 500; it logs the message and, for an error
  object with a \<^verbatim>\<open>response\<close> property, a second line.
\<close>

definition NO_USD_ENTRY :: string where
  "NO_USD_ENTRY = ''Cannot read properties of undefined (reading 'usd')''"

definition get_fetchsonicprice :: "world \<Rightarrow> user list \<Rightarrow> outcome" where
  "get_fetchsonicprice w db =
     (let tokenId = ''sonic-3'' in
      case coingecko w of
        Inl (HttpError errorMessage details) \<Rightarrow>
          reply 500 False (Failure ''Failed to fetch Sonic token price'' errorMessage)
            db [HttpGet COINGECKO_URL]
            (errorMessage # (case details of None \<Rightarrow> [] | Some d \<Rightarrow> [d]))
      | Inr data \<Rightarrow>
          (case data tokenId of
             None \<Rightarrow>
               reply 500 False (Failure ''Failed to fetch Sonic token price'' NO_USD_ENTRY)
                 db [HttpGet COINGECKO_URL] [NO_USD_ENTRY]
           | Some sonicPrice \<Rightarrow>
               reply 200 True (Price (to_json sonicPrice) ''USD'' tokenId (now w))
                 db [HttpGet COINGECKO_URL] []))"

subsection \<open>POST /api/invest (lines 173 to 244)\<close>

definition OWN_PRICE_URL :: string where
  "OWN_PRICE_URL = ''http://localhost:PORT/api/fetchsonicprice''"

text \<open>
  The handler asks its own server for the price and reads the price field of the JSON
  body it gets back. The HTTP client rejects on a status other than 2xx.
  \<^verbatim>\<open>!tokenPrice\<close> holds when the field is absent, \<^verbatim>\<open>null\<close> or zero.
\<close>

definition own_price :: "world \<Rightarrow> user list \<Rightarrow> string + json_number" where
  "own_price w db =
     (let r = resp (get_fetchsonicprice w db) in
      if status r = 200 then
        (case payload r of Price p _ _ _ \<Rightarrow> Inr p | _ \<Rightarrow> Inr JAbsent)
      else Inl ''Request failed with status code 500'')"

definition invest_upsert :: options where
  "invest_upsert = \<lparr>new = True, upsert = True, setDefaultsOnInsert = None\<rparr>"

text \<open>
  The inner \<^verbatim>\<open>try\<close> of lines 201 to 226: the collection afterwards and what the
  inner \<^verbatim>\<open>catch\<close> logs. A rejection of the database is logged and nothing else.
\<close>

definition record_investment ::
  "odm \<Rightarrow> world \<Rightarrow> user list \<Rightarrow> string \<Rightarrow> number \<Rightarrow> string \<Rightarrow> number \<Rightarrow> string
     \<Rightarrow> user list \<times> string list" where
  "record_investment m w db addr amt risk price txHash =
     (case findOneAndUpdate m w userSchema (toLowerCase addr)
             [PushInvestments
                \<lparr>amount = amt, riskLevel = risk, tokenPrice = price,
                 transactionHash = txHash, timestamp = now w\<rparr>,
              SetLastSeen (now w)]
             invest_upsert db of
        Inl dbError \<Rightarrow> (db, [dbError])
      | Inr (_, db') \<Rightarrow> (db', []))"

definition missing_invest_fields :: "user list \<Rightarrow> outcome" where
  "missing_invest_fields db =
     reply 400 False (Message ''Missing required fields: amount and riskLevel'') db [] []"

definition invest_failed :: "user list \<Rightarrow> call list \<Rightarrow> string list \<Rightarrow> string \<Rightarrow> outcome" where
  "invest_failed db cs ls errorMessage =
     reply 500 False (Failure ''Failed to process investment'' errorMessage)
       db cs (ls @ [errorMessage])"

definition post_invest ::
  "odm \<Rightarrow> world \<Rightarrow> user list \<Rightarrow> number option \<Rightarrow> string option \<Rightarrow> string option
     \<Rightarrow> outcome" where
  "post_invest m w db amount' riskLevel' walletAddress' =
     (case (amount', riskLevel') of
        (Some amt, Some risk) \<Rightarrow>
          if \<not> truthy_number amt \<or> risk = [] then missing_invest_fields db
          else
            (let pc = HttpGet OWN_PRICE_URL # calls (get_fetchsonicprice w db);
                 pl = logged (get_fetchsonicprice w db)
             in case own_price w db of
                  Inl e \<Rightarrow> invest_failed db pc pl e
                | Inr JAbsent \<Rightarrow>
                    invest_failed db pc pl ''Failed to get current token price''
                | Inr JNull \<Rightarrow>
                    invest_failed db pc pl ''Failed to get current token price''
                | Inr (JNumber price) \<Rightarrow>
                    if price = 0 then
                      invest_failed db pc pl ''Failed to get current token price''
                    else
                      (case sendTransaction w amt (Num price) RECIPIENT_WALLET risk of
                         Inl e \<Rightarrow> invest_failed db (pc @ [SendTransaction]) pl e
                       | Inr txHash \<Rightarrow>
                           (case walletAddress' of
                              None \<Rightarrow>
                                reply 200 True (Invested amt risk txHash (now w))
                                  db (pc @ [SendTransaction]) pl
                            | Some addr \<Rightarrow>
                                if addr = [] then
                                  reply 200 True (Invested amt risk txHash (now w))
                                    db (pc @ [SendTransaction]) pl
                                else
                                  (let (db', dl) =
                                     record_investment m w db addr amt risk
                                       (Num price) txHash
                                   in reply 200 True (Invested amt risk txHash (now w))
                                        db' (pc @ [SendTransaction, FindOneAndUpdate])
                                        (pl @ dl)))))
      | _ \<Rightarrow> missing_invest_fields db)"

subsection \<open>POST /api/user (lines 248 to 291)\<close>

definition user_upsert :: options where
  "user_upsert = \<lparr>new = True, upsert = True, setDefaultsOnInsert = Some True\<rparr>"

definition user_failed :: "user list \<Rightarrow> call list \<Rightarrow> string \<Rightarrow> outcome" where
  "user_failed db cs errorMessage =
     reply 500 False (Failure ''Error saving user data'' errorMessage) db cs [errorMessage]"

text \<open>
  \<^verbatim>\<open>lastSeen ? new Date(lastSeen) : new Date()\<close>; \<open>None\<close> is \<^verbatim>\<open>Invalid Date\<close>,
  which the library refuses to cast to the path's type before the store is reached.
\<close>

definition seen_date :: "world \<Rightarrow> string option \<Rightarrow> date option" where
  "seen_date w lastSeen' =
     (case lastSeen' of
        None \<Rightarrow> Some (now w)
      | Some s \<Rightarrow> if s = [] then Some (now w) else parseDate w s)"

text \<open>\<^verbatim>\<open>chainId || null\<close>.\<close>

definition chain_or_null :: "string option \<Rightarrow> string option" where
  "chain_or_null chainId' =
     (case chainId' of None \<Rightarrow> None | Some c \<Rightarrow> if c = [] then None else Some c)"

definition post_user ::
  "odm \<Rightarrow> world \<Rightarrow> user list \<Rightarrow> string option \<Rightarrow> string option \<Rightarrow> string option
     \<Rightarrow> outcome" where
  "post_user m w db walletAddress' lastSeen' chainId' =
     (if falsy_string walletAddress' then
        reply 400 False (Message ''Wallet address is required'') db [] []
      else
        (case walletAddress' of
           None \<Rightarrow> reply 400 False (Message ''Wallet address is required'') db [] []
         | Some addr \<Rightarrow>
             (case seen_date w lastSeen' of
                None \<Rightarrow>
                  user_failed db [FindOneAndUpdate] ''Cast to date failed for value Invalid Date''
              | Some t \<Rightarrow>
                  (case findOneAndUpdate m w userSchema (toLowerCase addr)
                          [SetLastSeen t, SetChainId (chain_or_null chainId')]
                          user_upsert db of
                     Inl e \<Rightarrow> user_failed db [FindOneAndUpdate] e
                   | Inr (None, db') \<Rightarrow>
                       user_failed db' [FindOneAndUpdate]
                         ''Cannot read properties of null (reading 'walletAddress')''
                   | Inr (Some u, db') \<Rightarrow>
                       reply 200 True (UserView (walletAddress u) (firstSeen u) (lastSeen u))
                         db' [FindOneAndUpdate] []))))"

subsection \<open>POST /api/user/investment (lines 294 to 336)\<close>

definition investment_update :: options where
  "investment_update = \<lparr>new = True, upsert = False, setDefaultsOnInsert = None\<rparr>"

definition post_user_investment ::
  "odm \<Rightarrow> world \<Rightarrow> user list \<Rightarrow> string option \<Rightarrow> investmentRecord option \<Rightarrow> outcome" where
  "post_user_investment m w db walletAddress' investment' =
     (case (walletAddress', investment') of
        (Some addr, Some investment) \<Rightarrow>
          if addr = [] then
            reply 400 False (Message ''Wallet address and investment details are required'')
              db [] []
          else
            (case findOneAndUpdate m w userSchema (toLowerCase addr)
                    [PushInvestments investment, SetLastSeen (now w)]
                    investment_update db of
               Inl e \<Rightarrow>
                 reply 500 False (Failure ''Error updating investment history'' e)
                   db [FindOneAndUpdate] [e]
             | Inr (None, db') \<Rightarrow>
                 reply 404 False (Message ''User not found'') db' [FindOneAndUpdate] []
             | Inr (Some u, db') \<Rightarrow>
                 reply 200 True (Message ''Investment history updated'')
                   db' [FindOneAndUpdate] [])
      | _ \<Rightarrow>
          reply 400 False (Message ''Wallet address and investment details are required'')
            db [] [])"

subsection \<open>GET /api/user/:walletAddress (lines 339 to 379)\<close>

definition get_user :: "world \<Rightarrow> user list \<Rightarrow> string \<Rightarrow> outcome" where
  "get_user w db walletAddress' =
     (if walletAddress' = [] then
        reply 400 False (Message ''Wallet address is required'') db [] []
      else
        (case findOne w (toLowerCase walletAddress') db of
           Inl e \<Rightarrow>
             reply 500 False (Failure ''Error fetching user data'' e) db [FindOne] [e]
         | Inr None \<Rightarrow> reply 404 False (Message ''User not found'') db [FindOne] []
         | Inr (Some u) \<Rightarrow>
             reply 200 True (UserView (walletAddress u) (firstSeen u) (lastSeen u))
               db [FindOne] []))"

subsection \<open>The requests that reach the store\<close>

text \<open>
  \<^verbatim>\<open>GET /api/analyze\<close> and \<^verbatim>\<open>GET /\<close> touch neither the store nor any of the
  handlers above and are left out.
\<close>

datatype request =
    GetFetchSonicPrice
  | PostInvest "number option" "string option" "string option"
  | PostUser "string option" "string option" "string option"
  | PostUserInvestment "string option" "investmentRecord option"
  | GetUser string

fun handle :: "odm \<Rightarrow> world \<Rightarrow> user list \<Rightarrow> request \<Rightarrow> outcome" where
  "handle m w db GetFetchSonicPrice = get_fetchsonicprice w db"
| "handle m w db (PostInvest a r wa) = post_invest m w db a r wa"
| "handle m w db (PostUser wa ls c) = post_user m w db wa ls c"
| "handle m w db (PostUserInvestment wa i) = post_user_investment m w db wa i"
| "handle m w db (GetUser wa) = get_user w db wa"

text \<open>The stored document of an address, if any.\<close>

definition lookup :: "user list \<Rightarrow> string \<Rightarrow> user option" where
  "lookup db a = find (\<lambda>d. walletAddress d = a) db"

section \<open>Predicates on the store\<close>

text \<open>
  One request changes the collection by at most one \<^verbatim>\<open>findOneAndUpdate\<close> on a
  lower-cased address; \<open>writes\<close> says that the collection \<open>db'\<close> results from \<open>db\<close>
  by such a call with the update \<open>upd\<close>.
\<close>

definition writes :: "odm \<Rightarrow> world \<Rightarrow> user list \<Rightarrow> update_op list \<Rightarrow> user list \<Rightarrow> bool" where
  "writes m w db upd db' =
     (\<exists>a opts r. findOneAndUpdate m w userSchema (toLowerCase a) upd opts db = Inr (r, db'))"

text \<open>The update a request issues when it reaches the store.\<close>

definition issued :: "world \<Rightarrow> request \<Rightarrow> update_op list \<Rightarrow> bool" where
  "issued w rq upd =
     (case rq of
        PostUser wa ls c \<Rightarrow>
          (\<exists>t. seen_date w ls = Some t \<and> upd = [SetLastSeen t, SetChainId (chain_or_null c)])
      | PostInvest a r wa \<Rightarrow> (\<exists>x. upd = [PushInvestments x, SetLastSeen (now w)])
      | PostUserInvestment wa i \<Rightarrow> (\<exists>x. upd = [PushInvestments x, SetLastSeen (now w)])
      | _ \<Rightarrow> False)"

text \<open>
  The index \<^verbatim>\<open>unique: true\<close> and the setter \<^verbatim>\<open>lowercase: true\<close> of the path
  \<^verbatim>\<open>walletAddress\<close>: the stored addresses are pairwise distinct and lower-case.
\<close>

definition unique_lowercase :: "user list \<Rightarrow> bool" where
  "unique_lowercase db =
     (distinct (map walletAddress db) \<and>
      list_all (\<lambda>a. toLowerCase a = a) (map walletAddress db))"

section \<open>Example inputs\<close>

text \<open>Concrete collaborators, used to run the handlers on examples.\<close>

definition example_odm :: odm where
  "example_odm = \<lparr>insertDefaults = True\<rparr>"

definition example_world :: world where
  "example_world =
     \<lparr>now = 1000, coingecko = Inr [''sonic-3'' \<mapsto> Some (Num 2)],
      sendTransaction = (\<lambda>amt price recipient risk. Inr ''0xfeed''),
      dbFailure = None,
      parseDate = (\<lambda>s. if s = ''1970-01-01T00:00:00.700Z'' then Some 700 else None)\<rparr>"

definition later_world :: world where
  "later_world = example_world\<lparr>now := 2000\<rparr>"

definition db_down_world :: world where
  "db_down_world = example_world\<lparr>dbFailure := Some ''connection lost''\<rparr>"

definition zero_quote_world :: world where
  "zero_quote_world = example_world\<lparr>coingecko := Inr [''sonic-3'' \<mapsto> Some (Num 0)]\<rparr>"

definition infinite_quote_world :: world where
  "infinite_quote_world = example_world\<lparr>coingecko := Inr [''sonic-3'' \<mapsto> Some PosInfinity]\<rparr>"

definition example_user :: user where
  "example_user =
     \<lparr>walletAddress = ''0xabc'', firstSeen = Some 5, lastSeen = Some 5,
      chainId = None, investments = []\<rparr>"

definition example_investment :: investmentRecord where
  "example_investment =
     \<lparr>amount = Num 100, riskLevel = ''low'', tokenPrice = Num 2,
      transactionHash = ''0xfeed'', timestamp = 900\<rparr>"

section \<open>Facts about the store\<close>

lemma lower_char_idem: "lower_char (lower_char c) = lower_char c"
proof -
  have "of_char (char_of (of_char c + (32::nat))) = (of_char c + 32) mod (256::nat)"
    by (rule of_char_of)
  thus ?thesis
    unfolding lower_char_def Let_def by auto
qed

lemma toLowerCase_idem: "toLowerCase (toLowerCase s) = toLowerCase s"
  by (simp add: toLowerCase_def lower_char_idem)

lemma apply_op_address: "walletAddress (apply_op d x) = walletAddress d"
  by (cases x) simp_all

lemma apply_op_firstSeen: "firstSeen (apply_op d x) = firstSeen d"
  by (cases x) simp_all

lemma apply_update_address: "walletAddress (apply_update u d) = walletAddress d"
  unfolding apply_update_def
  by (induction u arbitrary: d) (simp_all add: apply_op_address)

lemma apply_update_firstSeen: "firstSeen (apply_update u d) = firstSeen d"
  unfolding apply_update_def
  by (induction u arbitrary: d) (simp_all add: apply_op_firstSeen)

lemma push_update_investments:
  "investments (apply_update (castUpdate userSchema [PushInvestments r, SetLastSeen t]) d) =
     investments d"
  by (simp add: castUpdate_def userSchema_def apply_update_def)

lemma push_update_lastSeen:
  "lastSeen (apply_update (castUpdate userSchema [PushInvestments r, SetLastSeen t]) d) = Some t"
  by (simp add: castUpdate_def userSchema_def apply_update_def)

lemma seen_update_investments:
  "investments (apply_update (castUpdate userSchema [SetLastSeen t, SetChainId c]) d) =
     investments d"
  by (simp add: castUpdate_def userSchema_def apply_update_def)

lemma seen_update_lastSeen:
  "lastSeen (apply_update (castUpdate userSchema [SetLastSeen t, SetChainId c]) d) = Some t"
  by (simp add: castUpdate_def userSchema_def apply_update_def)

lemma lookup_update_first:
  assumes "\<And>d. walletAddress (f d) = walletAddress d"
  shows "lookup (update_first a f db) b =
           (if b = a then map_option f (lookup db a) else lookup db b)"
  using assms by (induction db) (auto simp: lookup_def)

lemma lookup_snoc:
  "lookup (db @ [d]) b =
     (case lookup db b of Some x \<Rightarrow> Some x
      | None \<Rightarrow> if walletAddress d = b then Some d else None)"
  by (induction db) (auto simp: lookup_def)

lemma map_address_update_first:
  assumes "\<And>d. walletAddress (f d) = walletAddress d"
  shows "map walletAddress (update_first a f db) = map walletAddress db"
  using assms by (induction db) auto

text \<open>What findOneAndUpdate leaves in the store, by address.\<close>

lemma findOneAndUpdate_rejects:
  "dbFailure w = Some e \<Longrightarrow> findOneAndUpdate m w sch a upd opts db = Inl e"
  by (simp add: findOneAndUpdate_def)

lemma findOneAndUpdate_found:
  assumes "dbFailure w = None" and "lookup db a = Some d"
  shows "findOneAndUpdate m w sch a upd opts db =
           Inr (Some (if new opts then apply_update (castUpdate sch upd) d else d),
                update_first a (apply_update (castUpdate sch upd)) db)"
  using assms by (simp add: findOneAndUpdate_def lookup_def Let_def)

lemma findOneAndUpdate_absent:
  assumes "dbFailure w = None" and "lookup db a = None"
  shows "findOneAndUpdate m w sch a upd opts db =
           (if upsert opts then
              Inr (if new opts then Some (apply_update (castUpdate sch upd) (inserted m w opts a)) else None,
                   db @ [apply_update (castUpdate sch upd) (inserted m w opts a)])
            else Inr (None, db))"
  using assms by (simp add: findOneAndUpdate_def lookup_def Let_def)

lemma store_reply: "store (reply st ok p db cs ls) = db"
  by (simp add: reply_def)

lemma store_get_fetchsonicprice: "store (get_fetchsonicprice w db) = db"
  by (simp add: get_fetchsonicprice_def store_reply Let_def
      split: sum.splits option.splits http_error.splits)

lemma store_get_user: "store (get_user w db a) = db"
  by (simp add: get_user_def store_reply split: sum.splits option.splits)

lemma price_quoted:
  assumes "coingecko w = Inr data" and "data ''sonic-3'' = Some usd"
  shows "get_fetchsonicprice w db =
           reply 200 True (Price (to_json usd) ''USD'' ''sonic-3'' (now w))
             db [HttpGet COINGECKO_URL] []"
  using assms by (simp add: get_fetchsonicprice_def)

lemma own_price_quoted:
  assumes "coingecko w = Inr data" and "data ''sonic-3'' = Some usd"
  shows "own_price w db = Inr (to_json usd)"
  by (simp add: own_price_def price_quoted [OF assms] reply_def)

lemma post_invest_sent:
  assumes "truthy_number amt" and "risk \<noteq> []"
    and "coingecko w = Inr data" and "data ''sonic-3'' = Some (Some (Num q))"
    and "q \<noteq> 0"
    and "sendTransaction w amt (Num q) RECIPIENT_WALLET risk = Inr txHash"
    and "addr \<noteq> []"
  shows "post_invest m w db (Some amt) (Some risk) (Some addr) =
           reply 200 True (Invested amt risk txHash (now w))
             (fst (record_investment m w db addr amt risk (Num q) txHash))
             [HttpGet OWN_PRICE_URL, HttpGet COINGECKO_URL, SendTransaction, FindOneAndUpdate]
             (snd (record_investment m w db addr amt risk (Num q) txHash))"
  using assms
  by (simp add: post_invest_def own_price_quoted [OF assms(3,4)]
      price_quoted [OF assms(3,4)] reply_def split: prod.splits)

text \<open>
  A quote that is not a finite number does not survive the JSON body of the price
  endpoint: the investment is refused before \<^verbatim>\<open>sendTransaction\<close> is called.
\<close>

lemma post_invest_needs_finite_price:
  assumes "truthy_number amt" and "risk \<noteq> []"
    and "coingecko w = Inr data" and "data ''sonic-3'' = Some usd"
    and "to_json usd = JNull \<or> to_json usd = JAbsent \<or> to_json usd = JNumber 0"
  shows "post_invest m w db (Some amt) (Some risk) wa =
           invest_failed db [HttpGet OWN_PRICE_URL, HttpGet COINGECKO_URL] []
             ''Failed to get current token price''"
  using assms
  by (auto simp: post_invest_def own_price_quoted [OF assms(3,4)]
        price_quoted [OF assms(3,4)] reply_def)

lemma lookup_absent_investment:
  assumes "lookup db (toLowerCase addr) = None" and "dbFailure w = None"
  shows "findOneAndUpdate m w userSchema (toLowerCase addr) upd investment_update db =
           Inr (None, db)"
  using assms by (simp add: findOneAndUpdate_absent investment_update_def)

lemma inserted_address: "walletAddress (inserted m w opts a) = toLowerCase a"
  by (simp add: inserted_def Let_def)

lemma findOneAndUpdate_ok:
  "findOneAndUpdate m w sch a upd opts db = Inr x \<Longrightarrow> dbFailure w = None"
  by (cases "dbFailure w") (simp_all add: findOneAndUpdate_def)

lemma writes_lookup:
  assumes "writes m w db upd db'" and "lookup db b = Some d"
  shows "lookup db' b = Some d \<or>
         lookup db' b = Some (apply_update (castUpdate userSchema upd) d)"
proof -
  from assms(1) obtain a opts r where
    f: "findOneAndUpdate m w userSchema (toLowerCase a) upd opts db = Inr (r, db')"
    unfolding writes_def by blast
  let ?a = "toLowerCase a"
  let ?u = "castUpdate userSchema upd"
  from f have ok: "dbFailure w = None" by (rule findOneAndUpdate_ok)
  show ?thesis
  proof (cases "lookup db ?a")
    case (Some d0)
    with f ok have db': "db' = update_first ?a (apply_update ?u) db"
      by (simp add: findOneAndUpdate_found)
    have "lookup db' b =
            (if b = ?a then map_option (apply_update ?u) (lookup db ?a) else lookup db b)"
      unfolding db' by (rule lookup_update_first) (rule apply_update_address)
    with assms(2) show ?thesis by (cases "b = ?a") simp_all
  next
    case None
    with f ok have "db' = db \<or> (\<exists>n. db' = db @ [n])"
      by (auto simp: findOneAndUpdate_absent split: if_splits)
    with assms(2) show ?thesis by (auto simp: lookup_snoc)
  qed
qed

lemma writes_record_investment:
  "record_investment m w db addr amt risk price h = (db', ls) \<Longrightarrow>
     db' = db \<or> (\<exists>r. writes m w db [PushInvestments r, SetLastSeen (now w)] db')"
  unfolding record_investment_def writes_def
  by (auto split: sum.splits)

lemma writes_post_invest:
  "store (post_invest m w db a r wa) = db \<or>
   (\<exists>x. writes m w db [PushInvestments x, SetLastSeen (now w)] (store (post_invest m w db a r wa)))"
  unfolding post_invest_def missing_invest_fields_def invest_failed_def
  by (auto simp: store_reply Let_def split: option.splits sum.splits prod.splits json_number.splits
      dest: writes_record_investment)

lemma writes_post_user_investment:
  "store (post_user_investment m w db wa i) = db \<or>
   (\<exists>x. writes m w db [PushInvestments x, SetLastSeen (now w)]
          (store (post_user_investment m w db wa i)))"
  unfolding post_user_investment_def writes_def
  by (auto simp: store_reply split: option.splits sum.splits prod.splits)

lemma writes_post_user:
  "store (post_user m w db wa ls c) = db \<or>
   (\<exists>t. seen_date w ls = Some t \<and>
        writes m w db [SetLastSeen t, SetChainId (chain_or_null c)]
          (store (post_user m w db wa ls c)))"
  unfolding post_user_def user_failed_def writes_def
  by (auto simp: store_reply split: option.splits sum.splits prod.splits)

lemma writes_handle:
  "store (handle m w db rq) = db \<or>
   (\<exists>upd. issued w rq upd \<and> writes m w db upd (store (handle m w db rq)))"
proof (cases rq)
  case GetFetchSonicPrice
  then show ?thesis by (simp add: store_get_fetchsonicprice)
next
  case (PostInvest a r wa)
  with writes_post_invest [of m w db a r wa] show ?thesis
    by (auto simp: issued_def)
next
  case (PostUser wa ls c)
  with writes_post_user [of m w db wa ls c] show ?thesis
    by (auto simp: issued_def)
next
  case (PostUserInvestment wa i)
  with writes_post_user_investment [of m w db wa i] show ?thesis
    by (auto simp: issued_def)
next
  case (GetUser a)
  then show ?thesis by (simp add: store_get_user)
qed

lemma handle_lookup:
  assumes "lookup db b = Some d"
  shows "lookup (store (handle m w db rq)) b = Some d \<or>
         (\<exists>upd. issued w rq upd \<and>
            lookup (store (handle m w db rq)) b =
              Some (apply_update (castUpdate userSchema upd) d))"
  using writes_handle [of m w db rq] writes_lookup [OF _ assms] assms
  by metis

lemma post_user_200:
  assumes "status (resp (post_user m w db (Some addr) ls c)) = 200"
  shows "addr \<noteq> [] \<and> dbFailure w = None \<and>
         (\<exists>t u. seen_date w ls = Some t \<and>
            findOneAndUpdate m w userSchema (toLowerCase addr)
              [SetLastSeen t, SetChainId (chain_or_null c)] user_upsert db =
            Inr (Some u, store (post_user m w db (Some addr) ls c)))"
  using assms
  by (auto simp: post_user_def user_failed_def reply_def falsy_string_def
      split: option.splits sum.splits prod.splits if_splits
      dest: findOneAndUpdate_ok)

lemma post_user_investment_200:
  assumes "status (resp (post_user_investment m w db (Some addr) (Some x))) = 200"
  shows "addr \<noteq> [] \<and> dbFailure w = None \<and>
         (\<exists>u. findOneAndUpdate m w userSchema (toLowerCase addr)
              [PushInvestments x, SetLastSeen (now w)] investment_update db =
            Inr (Some u, store (post_user_investment m w db (Some addr) (Some x))))"
  using assms
  by (auto simp: post_user_investment_def reply_def
      split: option.splits sum.splits prod.splits if_splits
      dest: findOneAndUpdate_ok)

lemma post_invest_200:
  assumes "status (resp (post_invest m w db am rk (Some addr))) = 200" and "addr \<noteq> []"
  shows "\<exists>amt risk price h ls.
           am = Some amt \<and> rk = Some risk \<and>
           sendTransaction w amt price RECIPIENT_WALLET risk = Inr h \<and>
           payload (resp (post_invest m w db am rk (Some addr))) = Invested amt risk h (now w) \<and>
           record_investment m w db addr amt risk price h =
             (store (post_invest m w db am rk (Some addr)), ls)"
  using assms
  by (auto simp: post_invest_def missing_invest_fields_def invest_failed_def reply_def Let_def
      split: option.splits sum.splits prod.splits json_number.splits if_splits)

lemma options_simps:
  "new user_upsert" "upsert user_upsert"
  "new invest_upsert" "upsert invest_upsert"
  "new investment_update" "\<not> upsert investment_update"
  by (simp_all add: user_upsert_def invest_upsert_def investment_update_def)

lemma inserted_firstSeen_user: "firstSeen (inserted m w user_upsert a) = Some (now w)"
  by (simp add: inserted_def user_upsert_def Let_def)

lemma inserted_firstSeen_invest:
  "firstSeen (inserted m w invest_upsert a) = (if insertDefaults m then Some (now w) else None)"
  by (simp add: inserted_def invest_upsert_def Let_def)

lemma lookup_created:
  assumes "lookup db (toLowerCase addr) = None"
  shows "lookup (db @ [apply_update u (inserted m w opts (toLowerCase addr))]) (toLowerCase addr) =
           Some (apply_update u (inserted m w opts (toLowerCase addr)))"
  using assms
  by (simp add: lookup_snoc apply_update_address inserted_address toLowerCase_idem)

lemma firstSeen_kept:
  assumes "lookup db a = Some d"
  shows "\<exists>d'. lookup (store (handle m w db rq)) a = Some d' \<and> firstSeen d' = firstSeen d"
  using handle_lookup [OF assms, of m w rq]
  by (auto simp: apply_update_firstSeen)

lemma firstSeen_created_by_post_user:
  assumes "lookup db (toLowerCase addr) = None"
    and "status (resp (post_user m w db (Some addr) ls c)) = 200"
  shows "\<exists>d'. lookup (store (post_user m w db (Some addr) ls c)) (toLowerCase addr) = Some d'
              \<and> firstSeen d' = Some (now w)"
proof -
  from post_user_200 [OF assms(2)] obtain t u where
    ok: "dbFailure w = None" and
    f: "findOneAndUpdate m w userSchema (toLowerCase addr)
          [SetLastSeen t, SetChainId (chain_or_null c)] user_upsert db =
        Inr (Some u, store (post_user m w db (Some addr) ls c))"
    by blast
  let ?d = "apply_update (castUpdate userSchema [SetLastSeen t, SetChainId (chain_or_null c)])
              (inserted m w user_upsert (toLowerCase addr))"
  from f have "store (post_user m w db (Some addr) ls c) = db @ [?d]"
    by (auto simp: findOneAndUpdate_absent [OF ok assms(1)] options_simps)
  then show ?thesis
    by (simp add: lookup_created [OF assms(1)] apply_update_firstSeen inserted_firstSeen_user)
qed

lemma created_by_post_invest:
  assumes "lookup db (toLowerCase addr) = None" and "addr \<noteq> []" and "dbFailure w = None"
    and "status (resp (post_invest m w db am rk (Some addr))) = 200"
  shows "\<exists>amt risk price h.
           am = Some amt \<and> rk = Some risk \<and>
           payload (resp (post_invest m w db am rk (Some addr))) = Invested amt risk h (now w) \<and>
           store (post_invest m w db am rk (Some addr)) =
             db @ [apply_update
                     (castUpdate userSchema
                        [PushInvestments
                           \<lparr>amount = amt, riskLevel = risk, tokenPrice = price,
                            transactionHash = h, timestamp = now w\<rparr>,
                         SetLastSeen (now w)])
                     (inserted m w invest_upsert (toLowerCase addr))]"
proof -
  from post_invest_200 [OF assms(4,2)] obtain amt risk price h ls where
    p: "am = Some amt" "rk = Some risk"
       "payload (resp (post_invest m w db am rk (Some addr))) = Invested amt risk h (now w)"
    and r: "record_investment m w db addr amt risk price h =
          (store (post_invest m w db am rk (Some addr)), ls)"
    by blast
  from r have "store (post_invest m w db am rk (Some addr)) =
             db @ [apply_update
                     (castUpdate userSchema
                        [PushInvestments
                           \<lparr>amount = amt, riskLevel = risk, tokenPrice = price,
                            transactionHash = h, timestamp = now w\<rparr>,
                         SetLastSeen (now w)])
                     (inserted m w invest_upsert (toLowerCase addr))]"
    by (auto simp: record_investment_def findOneAndUpdate_absent [OF assms(3,1)]
        options_simps)
  with p show ?thesis by blast
qed

lemma findOneAndUpdate_target:
  assumes "findOneAndUpdate m w userSchema (toLowerCase addr) upd opts db = Inr (Some u, db')"
    and "new opts"
  shows "lookup db' (toLowerCase addr) = Some u \<and>
         u = apply_update (castUpdate userSchema upd)
               (case lookup db (toLowerCase addr) of
                  Some d \<Rightarrow> d
                | None \<Rightarrow> inserted m w opts (toLowerCase addr))"
proof -
  let ?a = "toLowerCase addr"
  let ?u = "castUpdate userSchema upd"
  from assms(1) have ok: "dbFailure w = None" by (rule findOneAndUpdate_ok)
  show ?thesis
  proof (cases "lookup db ?a")
    case (Some d)
    from assms have u: "u = apply_update ?u d" and db': "db' = update_first ?a (apply_update ?u) db"
      by (simp_all add: findOneAndUpdate_found [OF ok Some])
    have "lookup db' ?a = map_option (apply_update ?u) (lookup db ?a)"
      unfolding db' by (simp add: lookup_update_first apply_update_address)
    with Some u show ?thesis by simp
  next
    case None
    from assms have u: "u = apply_update ?u (inserted m w opts ?a)" and db': "db' = db @ [u]"
      by (auto simp: findOneAndUpdate_absent [OF ok None] split: if_splits)
    from None show ?thesis
      unfolding db' by (simp add: u lookup_created)
  qed
qed

lemma record_investment_stored:
  assumes "dbFailure w = None"
  shows "\<exists>u. findOneAndUpdate m w userSchema (toLowerCase addr)
               [PushInvestments
                  \<lparr>amount = amt, riskLevel = risk, tokenPrice = price,
                   transactionHash = h, timestamp = now w\<rparr>,
                SetLastSeen (now w)]
               invest_upsert db =
             Inr (Some u, fst (record_investment m w db addr amt risk price h))"
  using assms
  by (cases "lookup db (toLowerCase addr)")
     (simp_all add: record_investment_def findOneAndUpdate_found findOneAndUpdate_absent
        options_simps)

lemma issued_investments:
  assumes "issued w rq upd"
  shows "investments (apply_update (castUpdate userSchema upd) d) = investments d"
  using assms
  by (cases rq)
     (auto simp: issued_def push_update_investments seen_update_investments)

text \<open>No request changes the investments stored with a user.\<close>

lemma investments_never_change:
  assumes "lookup db b = Some d"
  shows "\<exists>d'. lookup (store (handle m w db rq)) b = Some d' \<and> investments d' = investments d"
  using handle_lookup [OF assms, of m w rq]
  by (auto simp: issued_investments)

lemma pushed_post_user_investment:
  assumes "status (resp (post_user_investment m w db (Some addr) (Some x))) = 200"
  shows "\<exists>d. lookup db (toLowerCase addr) = Some d \<and>
             lookup (store (post_user_investment m w db (Some addr) (Some x))) (toLowerCase addr) =
               Some (apply_update (castUpdate userSchema [PushInvestments x, SetLastSeen (now w)]) d)"
proof -
  from post_user_investment_200 [OF assms] obtain u where
    ok: "dbFailure w = None" and
    f: "findOneAndUpdate m w userSchema (toLowerCase addr)
          [PushInvestments x, SetLastSeen (now w)] investment_update db =
        Inr (Some u, store (post_user_investment m w db (Some addr) (Some x)))"
    by blast
  show ?thesis
  proof (cases "lookup db (toLowerCase addr)")
    case None
    with f ok show ?thesis
      by (simp add: findOneAndUpdate_absent options_simps)
  next
    case (Some d)
    with findOneAndUpdate_target [OF f] show ?thesis
      by (simp add: options_simps)
  qed
qed

lemma pushed_post_invest:
  assumes "status (resp (post_invest m w db am rk (Some addr))) = 200"
    and "addr \<noteq> []" and "dbFailure w = None"
  shows "\<exists>x. Some (amount x) = am \<and> Some (riskLevel x) = rk \<and> timestamp x = now w \<and>
             payload (resp (post_invest m w db am rk (Some addr))) =
               Invested (amount x) (riskLevel x) (transactionHash x) (now w) \<and>
             lookup (store (post_invest m w db am rk (Some addr))) (toLowerCase addr) =
               Some (apply_update (castUpdate userSchema [PushInvestments x, SetLastSeen (now w)])
                       (case lookup db (toLowerCase addr) of
                          Some d \<Rightarrow> d
                        | None \<Rightarrow> inserted m w invest_upsert (toLowerCase addr)))"
proof -
  from post_invest_200 [OF assms(1,2)] obtain amt risk price h ls where
    p: "am = Some amt" "rk = Some risk"
       "payload (resp (post_invest m w db am rk (Some addr))) = Invested amt risk h (now w)"
    and r: "record_investment m w db addr amt risk price h =
          (store (post_invest m w db am rk (Some addr)), ls)"
    by blast
  let ?x = "\<lparr>amount = amt, riskLevel = risk, tokenPrice = price,
             transactionHash = h, timestamp = now w\<rparr>"
  from record_investment_stored [OF assms(3), of m addr amt risk price h db] r
  obtain u where
    f: "findOneAndUpdate m w userSchema (toLowerCase addr)
          [PushInvestments ?x, SetLastSeen (now w)] invest_upsert db =
        Inr (Some u, store (post_invest m w db am rk (Some addr)))"
    by auto
  from findOneAndUpdate_target [OF f] have
    "lookup (store (post_invest m w db am rk (Some addr))) (toLowerCase addr) =
       Some (apply_update (castUpdate userSchema [PushInvestments ?x, SetLastSeen (now w)])
               (case lookup db (toLowerCase addr) of
                  Some d \<Rightarrow> d
                | None \<Rightarrow> inserted m w invest_upsert (toLowerCase addr)))"
    by (simp add: options_simps)
  with p show ?thesis
    by (intro exI [of _ ?x]) simp
qed

lemma lookup_None_iff: "lookup db a = None \<longleftrightarrow> a \<notin> set (map walletAddress db)"
  by (auto simp: lookup_def find_None_iff)

lemma writes_unique_lowercase:
  assumes "writes m w db upd db'" and "unique_lowercase db"
  shows "unique_lowercase db'"
proof -
  from assms(1) obtain a opts r where
    f: "findOneAndUpdate m w userSchema (toLowerCase a) upd opts db = Inr (r, db')"
    unfolding writes_def by blast
  let ?a = "toLowerCase a"
  let ?u = "castUpdate userSchema upd"
  from f have ok: "dbFailure w = None" by (rule findOneAndUpdate_ok)
  show ?thesis
  proof (cases "lookup db ?a")
    case (Some d0)
    with f ok have "db' = update_first ?a (apply_update ?u) db"
      by (simp add: findOneAndUpdate_found)
    then have "map walletAddress db' = map walletAddress db"
      by (simp add: map_address_update_first apply_update_address)
    with assms(2) show ?thesis by (simp add: unique_lowercase_def)
  next
    case None
    with f ok have "db' = db \<or> db' = db @ [apply_update ?u (inserted m w opts ?a)]"
      by (auto simp: findOneAndUpdate_absent split: if_splits)
    then show ?thesis
    proof
      assume "db' = db"
      with assms(2) show ?thesis by simp
    next
      assume "db' = db @ [apply_update ?u (inserted m w opts ?a)]"
      then have "map walletAddress db' = map walletAddress db @ [?a]"
        by (simp add: apply_update_address inserted_address toLowerCase_idem)
      with assms(2) None show ?thesis
        by (simp add: unique_lowercase_def lookup_None_iff toLowerCase_idem)
    qed
  qed
qed

lemma handle_unique_lowercase:
  assumes "unique_lowercase db"
  shows "unique_lowercase (store (handle m w db rq))"
  using writes_handle [of m w db rq] assms
  by (auto dest: writes_unique_lowercase)

lemma one_document:
  assumes "distinct (map walletAddress db)" and "lookup db a = Some d"
  shows "length (filter (\<lambda>d. walletAddress d = a) db) = 1"
  using assms
proof (induction db)
  case Nil
  then show ?case by (simp add: lookup_def)
next
  case (Cons x db)
  show ?case
  proof (cases "walletAddress x = a")
    case True
    with Cons.prems(1) have "a \<notin> set (map walletAddress db)" by simp
    then have "filter (\<lambda>d. walletAddress d = a) db = []"
      by (auto simp: filter_empty_conv)
    with True show ?thesis by simp
  next
    case False
    with Cons show ?thesis by (simp add: lookup_def)
  qed
qed

lemma post_user_updates_existing:
  assumes "lookup db (toLowerCase addr) = Some d"
    and "status (resp (post_user m w db (Some addr) ls c)) = 200"
  shows "map walletAddress (store (post_user m w db (Some addr) ls c)) = map walletAddress db"
proof -
  from post_user_200 [OF assms(2)] obtain t u where
    ok: "dbFailure w = None" and
    f: "findOneAndUpdate m w userSchema (toLowerCase addr)
          [SetLastSeen t, SetChainId (chain_or_null c)] user_upsert db =
        Inr (Some u, store (post_user m w db (Some addr) ls c))"
    by blast
  from f have "store (post_user m w db (Some addr) ls c) =
                 update_first (toLowerCase addr)
                   (apply_update (castUpdate userSchema
                      [SetLastSeen t, SetChainId (chain_or_null c)])) db"
    by (simp add: findOneAndUpdate_found [OF ok assms(1)])
  then show ?thesis
    by (simp add: map_address_update_first apply_update_address)
qed

lemma post_user_target:
  assumes "status (resp (post_user m w db (Some addr) ls c)) = 200"
  shows "\<exists>t. seen_date w ls = Some t \<and>
           lookup (store (post_user m w db (Some addr) ls c)) (toLowerCase addr) =
             Some (apply_update
                     (castUpdate userSchema [SetLastSeen t, SetChainId (chain_or_null c)])
                     (case lookup db (toLowerCase addr) of
                        Some d \<Rightarrow> d
                      | None \<Rightarrow> inserted m w user_upsert (toLowerCase addr)))"
proof -
  from post_user_200 [OF assms] obtain t u where
    t: "seen_date w ls = Some t" and
    f: "findOneAndUpdate m w userSchema (toLowerCase addr)
          [SetLastSeen t, SetChainId (chain_or_null c)] user_upsert db =
        Inr (Some u, store (post_user m w db (Some addr) ls c))"
    by blast
  from findOneAndUpdate_target [OF f] t show ?thesis
    by (simp add: options_simps)
qed

lemma issued_lastSeen:
  assumes "issued w rq upd"
  shows "\<exists>t. lastSeen (apply_update (castUpdate userSchema upd) d) = Some t \<and>
             (t = now w \<or>
              (\<exists>wa s c. rq = PostUser wa (Some s) c \<and> s \<noteq> [] \<and> parseDate w s = Some t))"
  using assms
  by (cases rq)
     (auto simp: issued_def seen_date_def push_update_lastSeen seen_update_lastSeen
        split: option.splits if_splits)

lemma lastSeen_monotone:
  assumes "lookup db b = Some d" and "lastSeen d = Some l" and "l \<le> now w"
    and "\<forall>wa s c t. rq = PostUser wa (Some s) c \<and> s \<noteq> [] \<and> parseDate w s = Some t \<longrightarrow> l \<le> t"
  shows "\<exists>d' l'. lookup (store (handle m w db rq)) b = Some d' \<and> lastSeen d' = Some l' \<and> l \<le> l'"
proof -
  from handle_lookup [OF assms(1), of m w rq]
  consider "lookup (store (handle m w db rq)) b = Some d"
    | upd where "issued w rq upd"
        "lookup (store (handle m w db rq)) b =
           Some (apply_update (castUpdate userSchema upd) d)"
    by blast
  then show ?thesis
  proof cases
    case 1
    with assms(2) show ?thesis by simp
  next
    case 2
    from issued_lastSeen [OF 2(1), of d] obtain t where
      t: "lastSeen (apply_update (castUpdate userSchema upd) d) = Some t"
      and c: "t = now w \<or>
              (\<exists>wa s c. rq = PostUser wa (Some s) c \<and> s \<noteq> [] \<and> parseDate w s = Some t)"
      by blast
    from c assms(3,4) have "l \<le> t" by blast
    with 2(2) t show ?thesis by simp
  qed
qed

lemma lastSeen_post_user_supplied:
  assumes "status (resp (post_user m w db (Some addr) (Some s) c)) = 200" and "s \<noteq> []"
  shows "\<exists>d' t. parseDate w s = Some t
              \<and> lookup (store (post_user m w db (Some addr) (Some s) c)) (toLowerCase addr) = Some d'
              \<and> lastSeen d' = Some t"
  using post_user_target [OF assms(1)] assms(2)
  by (auto simp: seen_date_def seen_update_lastSeen)

lemma lastSeen_post_user_clock:
  assumes "status (resp (post_user m w db (Some addr) ls c)) = 200"
    and "ls = None \<or> ls = Some []"
  shows "\<exists>d'. lookup (store (post_user m w db (Some addr) ls c)) (toLowerCase addr) = Some d'
              \<and> lastSeen d' = Some (now w)"
  using post_user_target [OF assms(1)] assms(2)
  by (auto simp: seen_date_def seen_update_lastSeen)

section \<open>The claims\<close>

text \<open>
  C5. \<^verbatim>\<open>POST /api/invest\<close> whose body lacks \<^verbatim>\<open>amount\<close> or \<^verbatim>\<open>riskLevel\<close>
  (tested by falsiness) answers 400 and has made no external call: no price request, no
  \<^verbatim>\<open>sendTransaction\<close>, no database operation; the collection is unchanged.
\<close>

theorem invest_missing_field_400:
  assumes "falsy_number amount' \<or> falsy_string riskLevel'"
  shows "status (resp (post_invest m w db amount' riskLevel' walletAddress')) = 400
         \<and> calls (post_invest m w db amount' riskLevel' walletAddress') = []
         \<and> store (post_invest m w db amount' riskLevel' walletAddress') = db"
  using assms
  by (auto simp: post_invest_def missing_invest_fields_def reply_def
      falsy_number_def falsy_string_def split: option.splits)

theorem invest_missing_field_400_witness:
  "falsy_number None
   \<and> status (resp (post_invest example_odm example_world [] None (Some ''low'') (Some ''0xabc''))) = 400
   \<and> calls (post_invest example_odm example_world [] None (Some ''low'') (Some ''0xabc'')) = []
   \<and> store (post_invest example_odm example_world [] None (Some ''low'') (Some ''0xabc'')) = []"
  using invest_missing_field_400 [of None "Some ''low''" example_odm example_world "[]" "Some ''0xabc''"]
  by (simp add: falsy_number_def)

text \<open>
  C10. \<^verbatim>\<open>POST /api/invest\<close> with \<^verbatim>\<open>amount\<close> equal to 0, or \<^verbatim>\<open>riskLevel\<close> equal
  to the empty string, is answered like a missing field: 400 with the missing-fields
  message, before any external call. No world lets an amount of zero through.
\<close>

theorem invest_zero_amount_or_empty_risk_400:
  assumes "amount' = Some (Num 0) \<or> riskLevel' = Some []"
  shows "resp (post_invest m w db amount' riskLevel' walletAddress') =
           \<lparr>status = 400, success = False,
            payload = Message ''Missing required fields: amount and riskLevel''\<rparr>
         \<and> calls (post_invest m w db amount' riskLevel' walletAddress') = []
         \<and> store (post_invest m w db amount' riskLevel' walletAddress') = db"
  using assms
  by (auto simp: post_invest_def missing_invest_fields_def reply_def split: option.splits)

theorem invest_zero_amount_or_empty_risk_400_witness:
  "resp (post_invest example_odm example_world [] (Some (Num 0)) (Some ''low'') None) =
     \<lparr>status = 400, success = False,
      payload = Message ''Missing required fields: amount and riskLevel''\<rparr>
   \<and> calls (post_invest example_odm example_world [] (Some (Num 0)) (Some ''low'') None) = []
   \<and> store (post_invest example_odm example_world [] (Some (Num 0)) (Some ''low'') None) = []"
  using invest_zero_amount_or_empty_risk_400
    [of "Some (Num 0)" "Some ''low''" example_odm example_world "[]" None]
  by simp

text \<open>
  C3. \<^verbatim>\<open>POST /api/user/investment\<close> for a wallet address that has no stored user is
  answered 404 (the update is no upsert and finds nothing); the collection is unchanged,
  so no user is created for the address.
\<close>

theorem unknown_wallet_investment_404:
  assumes "lookup db (toLowerCase addr) = None" and "addr \<noteq> []" and "dbFailure w = None"
  shows "resp (post_user_investment m w db (Some addr) (Some rcd)) =
           \<lparr>status = 404, success = False, payload = Message ''User not found''\<rparr>
         \<and> store (post_user_investment m w db (Some addr) (Some rcd)) = db
         \<and> lookup (store (post_user_investment m w db (Some addr) (Some rcd)))
              (toLowerCase addr) = None"
  using assms
  by (simp add: post_user_investment_def lookup_absent_investment reply_def)

theorem unknown_wallet_investment_404_witness:
  "lookup [example_user] (toLowerCase ''0xDEF'') = None
   \<and> resp (post_user_investment example_odm example_world [example_user] (Some ''0xDEF'')
        (Some \<lparr>amount = Num 100, riskLevel = ''low'', tokenPrice = Num 2,
               transactionHash = ''0xfeed'', timestamp = 900\<rparr>)) =
       \<lparr>status = 404, success = False, payload = Message ''User not found''\<rparr>
   \<and> store (post_user_investment example_odm example_world [example_user] (Some ''0xDEF'')
        (Some \<lparr>amount = Num 100, riskLevel = ''low'', tokenPrice = Num 2,
               transactionHash = ''0xfeed'', timestamp = 900\<rparr>)) = [example_user]"
proof -
  have lc: "toLowerCase ''0xDEF'' = ''0xdef''" by code_simp
  have h: "lookup [example_user] (toLowerCase ''0xDEF'') = None"
    by (simp add: lc lookup_def example_user_def)
  show ?thesis
    using h unknown_wallet_investment_404
      [of "[example_user]" "''0xDEF''" example_world example_odm
          "\<lparr>amount = Num 100, riskLevel = ''low'', tokenPrice = Num 2,
            transactionHash = ''0xfeed'', timestamp = 900\<rparr>"]
    by (simp add: example_world_def)
qed

text \<open>
  C7. A user's first-seen timestamp is set when the document is created and no request
  changes it afterwards: whatever a request does, a stored document keeps its
  \<^verbatim>\<open>firstSeen\<close>. A document created by \<^verbatim>\<open>POST /api/user\<close> gets the clock value
  of that request (the call passes \<^verbatim>\<open>setDefaultsOnInsert\<close>); one created by the upsert
  of \<^verbatim>\<open>POST /api/invest\<close> gets it when the mapper applies defaults on insert.
\<close>

theorem firstSeen_set_on_creation_then_kept:
  "(lookup db a = Some d \<longrightarrow>
      (\<exists>d'. lookup (store (handle m w db rq)) a = Some d' \<and> firstSeen d' = firstSeen d))
   \<and> (lookup db (toLowerCase addr) = None
        \<and> status (resp (post_user m w db (Some addr) ls c)) = 200 \<longrightarrow>
      (\<exists>d'. lookup (store (post_user m w db (Some addr) ls c)) (toLowerCase addr) = Some d'
            \<and> firstSeen d' = Some (now w)))
   \<and> (lookup db (toLowerCase addr) = None \<and> addr \<noteq> [] \<and> dbFailure w = None
        \<and> insertDefaults m
        \<and> status (resp (post_invest m w db am rk (Some addr))) = 200 \<longrightarrow>
      (\<exists>d'. lookup (store (post_invest m w db am rk (Some addr))) (toLowerCase addr) = Some d'
            \<and> firstSeen d' = Some (now w)))"
proof (intro conjI impI)
  assume "lookup db a = Some d"
  then show "\<exists>d'. lookup (store (handle m w db rq)) a = Some d' \<and> firstSeen d' = firstSeen d"
    by (rule firstSeen_kept)
next
  assume "lookup db (toLowerCase addr) = None
            \<and> status (resp (post_user m w db (Some addr) ls c)) = 200"
  then show "\<exists>d'. lookup (store (post_user m w db (Some addr) ls c)) (toLowerCase addr) = Some d'
                \<and> firstSeen d' = Some (now w)"
    by (simp add: firstSeen_created_by_post_user)
next
  assume h: "lookup db (toLowerCase addr) = None \<and> addr \<noteq> [] \<and> dbFailure w = None
               \<and> insertDefaults m
               \<and> status (resp (post_invest m w db am rk (Some addr))) = 200"
  then obtain u where
    "store (post_invest m w db am rk (Some addr)) =
       db @ [apply_update u (inserted m w invest_upsert (toLowerCase addr))]"
    using created_by_post_invest [of db addr w m am rk] by blast
  with h show "\<exists>d'. lookup (store (post_invest m w db am rk (Some addr))) (toLowerCase addr) = Some d'
                \<and> firstSeen d' = Some (now w)"
    by (simp add: lookup_created apply_update_firstSeen inserted_firstSeen_invest)
qed

theorem firstSeen_set_on_creation_then_kept_witness:
  "lookup [example_user] ''0xabc'' = Some example_user
   \<and> (\<exists>d'. lookup (store (handle example_odm example_world [example_user]
                             (PostUser (Some ''0xABC'') None None))) ''0xabc'' = Some d'
          \<and> firstSeen d' = firstSeen example_user)
   \<and> lookup [] (toLowerCase ''0xABC'') = None
   \<and> status (resp (post_user example_odm example_world [] (Some ''0xABC'') None None)) = 200
   \<and> (\<exists>d'. lookup (store (post_user example_odm example_world [] (Some ''0xABC'') None None))
               (toLowerCase ''0xABC'') = Some d'
          \<and> firstSeen d' = Some (now example_world))
   \<and> insertDefaults example_odm
   \<and> status (resp (post_invest example_odm example_world []
                     (Some (Num 100)) (Some ''low'') (Some ''0xABC''))) = 200
   \<and> (\<exists>d'. lookup (store (post_invest example_odm example_world []
                     (Some (Num 100)) (Some ''low'') (Some ''0xABC'')))
               (toLowerCase ''0xABC'') = Some d'
          \<and> firstSeen d' = Some (now example_world))"
proof -
  have h1: "lookup [example_user] ''0xabc'' = Some example_user"
    by (simp add: lookup_def example_user_def)
  have h2: "lookup [] (toLowerCase ''0xABC'') = None"
    by (simp add: lookup_def)
  have h3: "status (resp (post_user example_odm example_world [] (Some ''0xABC'') None None)) = 200"
    by code_simp
  have h4: "status (resp (post_invest example_odm example_world []
                     (Some (Num 100)) (Some ''low'') (Some ''0xABC''))) = 200"
    by code_simp
  have h5: "insertDefaults example_odm" "dbFailure example_world = None"
    by (simp_all add: example_odm_def example_world_def)
  note t1 = firstSeen_set_on_creation_then_kept
              [of "[example_user]" "''0xabc''" example_user example_odm example_world
                  "PostUser (Some ''0xABC'') None None"]
  note t2 = firstSeen_set_on_creation_then_kept
              [of "[]" _ _ example_odm example_world _ "''0xABC''" None None
                  "Some (Num 100)" "Some ''low''"]
  from t1 h1 t2 h2 h3 h4 h5 show ?thesis by simp
qed

text \<open>
  C4. A collection whose addresses are lower-case and pairwise distinct stays so under
  every request. Two successful \<^verbatim>\<open>POST /api/user\<close> requests whose addresses are equal
  up to letter case leave exactly one document for the lower-cased address: the second
  request inserts nothing (the addresses of the collection are those after the first)
  and updates the document the first one left, keeping its \<^verbatim>\<open>firstSeen\<close> and
  investments and writing \<^verbatim>\<open>lastSeen\<close>.
\<close>

theorem one_user_per_address_ignoring_case:
  assumes "unique_lowercase db"
    and "toLowerCase a = toLowerCase b"
    and "status (resp (post_user m w1 db (Some a) ls1 c1)) = 200"
    and "status (resp (post_user m w2 (store (post_user m w1 db (Some a) ls1 c1))
                         (Some b) ls2 c2)) = 200"
  shows "unique_lowercase (store (handle m w db rq))
         \<and> unique_lowercase
             (store (post_user m w2 (store (post_user m w1 db (Some a) ls1 c1)) (Some b) ls2 c2))
         \<and> length (filter (\<lambda>d. walletAddress d = toLowerCase a)
             (store (post_user m w2 (store (post_user m w1 db (Some a) ls1 c1)) (Some b) ls2 c2)))
           = 1
         \<and> map walletAddress
             (store (post_user m w2 (store (post_user m w1 db (Some a) ls1 c1)) (Some b) ls2 c2))
           = map walletAddress (store (post_user m w1 db (Some a) ls1 c1))
         \<and> (\<exists>d1 d2.
               lookup (store (post_user m w1 db (Some a) ls1 c1)) (toLowerCase a) = Some d1
             \<and> lookup (store (post_user m w2 (store (post_user m w1 db (Some a) ls1 c1))
                                (Some b) ls2 c2)) (toLowerCase a) = Some d2
             \<and> firstSeen d2 = firstSeen d1 \<and> investments d2 = investments d1
             \<and> lastSeen d2 = seen_date w2 ls2)"
proof -
  let ?db1 = "store (post_user m w1 db (Some a) ls1 c1)"
  let ?db2 = "store (post_user m w2 ?db1 (Some b) ls2 c2)"
  have u0: "unique_lowercase (store (handle m w db rq))"
    using assms(1) by (rule handle_unique_lowercase)
  have "unique_lowercase (store (handle m w1 db (PostUser (Some a) ls1 c1)))"
    using assms(1) by (rule handle_unique_lowercase)
  then have u1: "unique_lowercase ?db1" by simp
  then have "unique_lowercase (store (handle m w2 ?db1 (PostUser (Some b) ls2 c2)))"
    by (rule handle_unique_lowercase)
  then have u2: "unique_lowercase ?db2" by simp
  from post_user_target [OF assms(3)] obtain d1 where
    d1: "lookup ?db1 (toLowerCase a) = Some d1"
    by blast
  then have d1b: "lookup ?db1 (toLowerCase b) = Some d1"
    using assms(2) by simp
  have same: "map walletAddress ?db2 = map walletAddress ?db1"
    using d1b assms(4) by (rule post_user_updates_existing)
  from post_user_target [OF assms(4)] d1b obtain t where
    t: "seen_date w2 ls2 = Some t" and
    d2: "lookup ?db2 (toLowerCase b) =
           Some (apply_update
                   (castUpdate userSchema [SetLastSeen t, SetChainId (chain_or_null c2)]) d1)"
    by auto
  let ?d2 = "apply_update
               (castUpdate userSchema [SetLastSeen t, SetChainId (chain_or_null c2)]) d1"
  from d2 assms(2) have d2a: "lookup ?db2 (toLowerCase a) = Some ?d2" by simp
  from u2 have "distinct (map walletAddress ?db2)" by (simp add: unique_lowercase_def)
  then have one: "length (filter (\<lambda>d. walletAddress d = toLowerCase a) ?db2) = 1"
    using d2a by (rule one_document)
  have kept: "firstSeen ?d2 = firstSeen d1" "investments ?d2 = investments d1"
    "lastSeen ?d2 = seen_date w2 ls2"
    by (simp_all add: apply_update_firstSeen seen_update_investments seen_update_lastSeen t)
  from u0 u2 one same d1 d2a kept show ?thesis by blast
qed

theorem one_user_per_address_ignoring_case_witness:
  "unique_lowercase []
   \<and> toLowerCase ''0xABC'' = toLowerCase ''0xabc''
   \<and> status (resp (post_user example_odm example_world [] (Some ''0xABC'') None None)) = 200
   \<and> status (resp (post_user example_odm later_world
        (store (post_user example_odm example_world [] (Some ''0xABC'') None None))
        (Some ''0xabc'') None None)) = 200
   \<and> length (filter (\<lambda>d. walletAddress d = toLowerCase ''0xABC'')
        (store (post_user example_odm later_world
           (store (post_user example_odm example_world [] (Some ''0xABC'') None None))
           (Some ''0xabc'') None None))) = 1
   \<and> map walletAddress
        (store (post_user example_odm later_world
           (store (post_user example_odm example_world [] (Some ''0xABC'') None None))
           (Some ''0xabc'') None None)) =
       map walletAddress (store (post_user example_odm example_world [] (Some ''0xABC'') None None))"
proof -
  have h1: "unique_lowercase []" by (simp add: unique_lowercase_def)
  have h2: "toLowerCase ''0xABC'' = toLowerCase ''0xabc''" by code_simp
  have h3: "status (resp (post_user example_odm example_world [] (Some ''0xABC'') None None)) = 200"
    by code_simp
  have h4: "status (resp (post_user example_odm later_world
        (store (post_user example_odm example_world [] (Some ''0xABC'') None None))
        (Some ''0xabc'') None None)) = 200"
    by code_simp
  from one_user_per_address_ignoring_case [OF h1 h2 h3 h4] h1 h2 h3 h4
  show ?thesis by blast
qed

text \<open>
  C2. \<^verbatim>\<open>POST /api/invest\<close> with a wallet address: when the price endpoint delivers a
  finite non-zero price and \<^verbatim>\<open>sendTransaction\<close> returns a hash but the database
  rejects the write that records the investment, the response is still 200 with
  \<^verbatim>\<open>success: true\<close> and that hash; the transfer has been sent, the database error only
  goes to the console and the collection is unchanged.
\<close>

theorem invest_reports_success_when_db_write_fails:
  assumes "truthy_number amt" and "risk \<noteq> []" and "addr \<noteq> []"
    and "coingecko w = Inr data" and "data ''sonic-3'' = Some (Some (Num q))"
    and "q \<noteq> 0"
    and "sendTransaction w amt (Num q) RECIPIENT_WALLET risk = Inr txHash"
    and "dbFailure w = Some e"
  shows "resp (post_invest m w db (Some amt) (Some risk) (Some addr)) =
           \<lparr>status = 200, success = True, payload = Invested amt risk txHash (now w)\<rparr>
         \<and> calls (post_invest m w db (Some amt) (Some risk) (Some addr)) =
             [HttpGet OWN_PRICE_URL, HttpGet COINGECKO_URL, SendTransaction, FindOneAndUpdate]
         \<and> logged (post_invest m w db (Some amt) (Some risk) (Some addr)) = [e]
         \<and> store (post_invest m w db (Some amt) (Some risk) (Some addr)) = db"
proof -
  have "record_investment m w db addr amt risk (Num q) txHash = (db, [e])"
    using assms(8) by (simp add: record_investment_def findOneAndUpdate_rejects)
  then show ?thesis
    by (simp add: post_invest_sent [OF assms(1,2,4,5,6,7,3)] reply_def)
qed

theorem invest_reports_success_when_db_write_fails_witness:
  "dbFailure db_down_world = Some ''connection lost''
   \<and> resp (post_invest example_odm db_down_world [example_user]
             (Some (Num 100)) (Some ''low'') (Some ''0xABC'')) =
       \<lparr>status = 200, success = True, payload = Invested (Num 100) ''low'' ''0xfeed'' 1000\<rparr>
   \<and> logged (post_invest example_odm db_down_world [example_user]
             (Some (Num 100)) (Some ''low'') (Some ''0xABC'')) = [''connection lost'']
   \<and> store (post_invest example_odm db_down_world [example_user]
             (Some (Num 100)) (Some ''low'') (Some ''0xABC'')) = [example_user]"
  using invest_reports_success_when_db_write_fails
    [of "Num 100" "''low''" "''0xABC''" db_down_world "[''sonic-3'' \<mapsto> Some (Num 2)]" 2
        "''0xfeed''" "''connection lost''" example_odm "[example_user]"]
  by (simp add: db_down_world_def example_world_def)

text \<open>
  C9. \<^verbatim>\<open>POST /api/invest\<close> with a wallet address that has no stored user, once the
  price endpoint has delivered a finite non-zero price, the transfer is sent and the
  database accepts the write, inserts a new user document for the lower-cased address
  (the update is an upsert), last seen at the clock value.
  \<^verbatim>\<open>POST /api/user/investment\<close> on the same collection and address answers 404 and
  inserts nothing.
\<close>

theorem invest_upserts_unknown_wallet:
  assumes "truthy_number amt" and "risk \<noteq> []" and "addr \<noteq> []"
    and "coingecko w = Inr data" and "data ''sonic-3'' = Some (Some (Num q))"
    and "q \<noteq> 0"
    and "sendTransaction w amt (Num q) RECIPIENT_WALLET risk = Inr txHash"
    and "dbFailure w = None"
    and "lookup db (toLowerCase addr) = None"
  shows "status (resp (post_invest m w db (Some amt) (Some risk) (Some addr))) = 200
         \<and> (\<exists>d. store (post_invest m w db (Some amt) (Some risk) (Some addr)) = db @ [d]
                \<and> walletAddress d = toLowerCase addr
                \<and> lastSeen d = Some (now w)
                \<and> lookup (store (post_invest m w db (Some amt) (Some risk) (Some addr)))
                     (toLowerCase addr) = Some d)
         \<and> status (resp (post_user_investment m w db (Some addr) (Some rcd))) = 404
         \<and> store (post_user_investment m w db (Some addr) (Some rcd)) = db"
proof -
  let ?d = "apply_update
              (castUpdate userSchema
                 [PushInvestments
                    \<lparr>amount = amt, riskLevel = risk, tokenPrice = Num q,
                     transactionHash = txHash, timestamp = now w\<rparr>,
                  SetLastSeen (now w)])
              (inserted m w invest_upsert (toLowerCase addr))"
  have a: "walletAddress ?d = toLowerCase addr"
    by (simp add: apply_update_address inserted_address toLowerCase_idem)
  have ls: "lastSeen ?d = Some (now w)"
    by (rule push_update_lastSeen)
  have r: "record_investment m w db addr amt risk (Num q) txHash = (db @ [?d], [])"
    using assms(8,9)
    by (simp add: record_investment_def findOneAndUpdate_absent invest_upsert_def)
  have s: "store (post_invest m w db (Some amt) (Some risk) (Some addr)) = db @ [?d]"
    and t: "status (resp (post_invest m w db (Some amt) (Some risk) (Some addr))) = 200"
    by (simp_all add: post_invest_sent [OF assms(1,2,4,5,6,7,3)] r reply_def)
  have l: "lookup (db @ [?d]) (toLowerCase addr) = Some ?d"
    using assms(9) a by (simp add: lookup_snoc)
  have u: "post_user_investment m w db (Some addr) (Some rcd) =
             reply 404 False (Message ''User not found'') db [FindOneAndUpdate] []"
    using assms(3,8,9) by (simp add: post_user_investment_def lookup_absent_investment)
  show ?thesis
    using a ls l s t by (simp add: u reply_def)
qed

theorem invest_upserts_unknown_wallet_witness:
  "lookup [] (toLowerCase ''0xABC'') = None
   \<and> status (resp (post_invest example_odm example_world []
                (Some (Num 100)) (Some ''low'') (Some ''0xABC''))) = 200
   \<and> (\<exists>d. store (post_invest example_odm example_world []
                (Some (Num 100)) (Some ''low'') (Some ''0xABC'')) = [] @ [d]
          \<and> walletAddress d = toLowerCase ''0xABC'')
   \<and> status (resp (post_user_investment example_odm example_world [] (Some ''0xABC'')
                (Some \<lparr>amount = Num 100, riskLevel = ''low'', tokenPrice = Num 2,
                       transactionHash = ''0xfeed'', timestamp = 900\<rparr>))) = 404"
proof -
  have h: "lookup [] (toLowerCase ''0xABC'') = None" by (simp add: lookup_def)
  have w: "coingecko example_world = Inr [''sonic-3'' \<mapsto> Some (Num 2)]"
    "sendTransaction example_world (Num 100) (Num 2) RECIPIENT_WALLET ''low'' = Inr ''0xfeed''"
    "dbFailure example_world = None"
    by (simp_all add: example_world_def)
  from invest_upserts_unknown_wallet
         [of "Num 100" "''low''" "''0xABC''" example_world "[''sonic-3'' \<mapsto> Some (Num 2)]" 2
             "''0xfeed''" "[]" example_odm, OF _ _ _ w(1) _ _ w(2) w(3) h]
  show ?thesis using h by auto
qed

text \<open>
  C6, as stated: on success the price field of \<^verbatim>\<open>GET /api/fetchsonicprice\<close> is a
  positive number. The handler passes the provider's quote on unchecked: a quote of 0 is
  answered with 200 and price 0.
\<close>

theorem price_not_checked_counterexample:
  "resp (get_fetchsonicprice zero_quote_world []) =
     \<lparr>status = 200, success = True, payload = Price (JNumber 0) ''USD'' ''sonic-3'' 1000\<rparr>
   \<and> \<not> positive_price (JNumber 0)"
  by (simp add: zero_quote_world_def example_world_def get_fetchsonicprice_def reply_def
      positive_price_def)

text \<open>
  C6, amended. \<^verbatim>\<open>GET /api/fetchsonicprice\<close> succeeds exactly when the provider
  answers with an entry for \<^verbatim>\<open>sonic-3\<close>. The response then carries the currency
  \<^verbatim>\<open>USD\<close>, the fixed token identifier \<^verbatim>\<open>sonic-3\<close> and, as its price, the
  \<^verbatim>\<open>usd\<close> quote of that entry unchecked, as the JSON body can carry it: a finite quote
  is sent as that number (so the price is positive exactly when the quote is); a quote
  that is not finite is sent as \<^verbatim>\<open>null\<close>; an entry without \<^verbatim>\<open>usd\<close> gives a body
  without a price field.
\<close>

theorem price_is_the_providers_quote:
  "(status (resp (get_fetchsonicprice w db)) = 200 \<longleftrightarrow>
      (\<exists>data usd. coingecko w = Inr data \<and> data ''sonic-3'' = Some usd))
   \<and> (coingecko w = Inr data \<and> data ''sonic-3'' = Some (Some (Num r)) \<longrightarrow>
        resp (get_fetchsonicprice w db) =
          \<lparr>status = 200, success = True,
           payload = Price (JNumber r) ''USD'' ''sonic-3'' (now w)\<rparr>
        \<and> (positive_price (JNumber r) \<longleftrightarrow> 0 < r))
   \<and> (coingecko w = Inr data
        \<and> (data ''sonic-3'' = Some (Some PosInfinity) \<or> data ''sonic-3'' = Some (Some NegInfinity)
            \<or> data ''sonic-3'' = Some (Some NaN)) \<longrightarrow>
        resp (get_fetchsonicprice w db) =
          \<lparr>status = 200, success = True, payload = Price JNull ''USD'' ''sonic-3'' (now w)\<rparr>)
   \<and> (coingecko w = Inr data \<and> data ''sonic-3'' = Some None \<longrightarrow>
        resp (get_fetchsonicprice w db) =
          \<lparr>status = 200, success = True, payload = Price JAbsent ''USD'' ''sonic-3'' (now w)\<rparr>)"
proof (intro conjI impI)
  show "status (resp (get_fetchsonicprice w db)) = 200 \<longleftrightarrow>
          (\<exists>data usd. coingecko w = Inr data \<and> data ''sonic-3'' = Some usd)"
    by (auto simp: get_fetchsonicprice_def reply_def Let_def
        split: sum.splits option.splits http_error.splits)
next
  assume "coingecko w = Inr data \<and> data ''sonic-3'' = Some (Some (Num r))"
  then show "resp (get_fetchsonicprice w db) =
          \<lparr>status = 200, success = True,
           payload = Price (JNumber r) ''USD'' ''sonic-3'' (now w)\<rparr>"
    by (simp add: get_fetchsonicprice_def reply_def)
next
  show "positive_price (JNumber r) \<longleftrightarrow> 0 < r"
    by (simp add: positive_price_def)
next
  assume "coingecko w = Inr data
        \<and> (data ''sonic-3'' = Some (Some PosInfinity) \<or> data ''sonic-3'' = Some (Some NegInfinity)
            \<or> data ''sonic-3'' = Some (Some NaN))"
  then show "resp (get_fetchsonicprice w db) =
          \<lparr>status = 200, success = True, payload = Price JNull ''USD'' ''sonic-3'' (now w)\<rparr>"
    by (auto simp: get_fetchsonicprice_def reply_def)
next
  assume "coingecko w = Inr data \<and> data ''sonic-3'' = Some None"
  then show "resp (get_fetchsonicprice w db) =
          \<lparr>status = 200, success = True, payload = Price JAbsent ''USD'' ''sonic-3'' (now w)\<rparr>"
    by (simp add: get_fetchsonicprice_def reply_def)
qed

theorem price_is_the_providers_quote_witness:
  "coingecko example_world = Inr [''sonic-3'' \<mapsto> Some (Num 2)]
   \<and> resp (get_fetchsonicprice example_world []) =
       \<lparr>status = 200, success = True, payload = Price (JNumber 2) ''USD'' ''sonic-3'' 1000\<rparr>
   \<and> positive_price (JNumber 2)
   \<and> coingecko infinite_quote_world = Inr [''sonic-3'' \<mapsto> Some PosInfinity]
   \<and> resp (get_fetchsonicprice infinite_quote_world []) =
       \<lparr>status = 200, success = True, payload = Price JNull ''USD'' ''sonic-3'' 1000\<rparr>"
  using price_is_the_providers_quote
          [of example_world "[]" "[''sonic-3'' \<mapsto> Some (Num 2)]" 2]
        price_is_the_providers_quote
          [of infinite_quote_world "[]" "[''sonic-3'' \<mapsto> Some PosInfinity]"]
  by (simp add: example_world_def infinite_quote_world_def)

text \<open>
  C8, as stated: every endpoint that touches the user, \<^verbatim>\<open>GET /api/user/:walletAddress\<close>
  included, advances \<^verbatim>\<open>lastSeen\<close>. The GET handler only reads: at clock 1000 it answers
  200 for a user last seen at 5 and the stored \<^verbatim>\<open>lastSeen\<close> is still 5.
\<close>

theorem get_user_leaves_lastSeen_counterexample:
  "resp (get_user example_world [example_user] ''0xABC'') =
     \<lparr>status = 200, success = True, payload = UserView ''0xabc'' (Some 5) (Some 5)\<rparr>
   \<and> store (get_user example_world [example_user] ''0xABC'') = [example_user]
   \<and> lastSeen example_user = Some 5
   \<and> now example_world = 1000"
  by code_simp

text \<open>
  C8, amended. \<^verbatim>\<open>GET /api/user/:walletAddress\<close> leaves the collection as it is. The
  three POST handlers write \<^verbatim>\<open>lastSeen\<close> when they succeed: \<^verbatim>\<open>POST /api/user\<close>
  writes the date parsed from the \<^verbatim>\<open>lastSeen\<close> string the client sent, and the clock
  when the client sent none or an empty one; \<^verbatim>\<open>POST /api/user/investment\<close> and
  \<^verbatim>\<open>POST /api/invest\<close> (with a wallet address and an accepted write) write the clock.
  Under every request \<^verbatim>\<open>lastSeen\<close> does not decrease, as long as neither the clock
  nor a date the client supplies is behind the stored value.
\<close>

theorem lastSeen_written_by_posts:
  "store (get_user w db a) = db
   \<and> (status (resp (post_user m w db (Some addr) (Some s) c)) = 200 \<and> s \<noteq> [] \<longrightarrow>
        (\<exists>d' t. parseDate w s = Some t
              \<and> lookup (store (post_user m w db (Some addr) (Some s) c)) (toLowerCase addr)
                  = Some d'
              \<and> lastSeen d' = Some t))
   \<and> (status (resp (post_user m w db (Some addr) ls c)) = 200
        \<and> (ls = None \<or> ls = Some []) \<longrightarrow>
        (\<exists>d'. lookup (store (post_user m w db (Some addr) ls c)) (toLowerCase addr) = Some d'
              \<and> lastSeen d' = Some (now w)))
   \<and> (status (resp (post_user_investment m w db (Some addr) (Some x))) = 200 \<longrightarrow>
        (\<exists>d'. lookup (store (post_user_investment m w db (Some addr) (Some x)))
                 (toLowerCase addr) = Some d'
              \<and> lastSeen d' = Some (now w)))
   \<and> (status (resp (post_invest m w db am rk (Some addr))) = 200
        \<and> addr \<noteq> [] \<and> dbFailure w = None \<longrightarrow>
        (\<exists>d'. lookup (store (post_invest m w db am rk (Some addr))) (toLowerCase addr) = Some d'
              \<and> lastSeen d' = Some (now w)))
   \<and> (lookup db b = Some d \<and> lastSeen d = Some l \<and> l \<le> now w
        \<and> (\<forall>wa s' c' t. rq = PostUser wa (Some s') c' \<and> s' \<noteq> [] \<and> parseDate w s' = Some t
               \<longrightarrow> l \<le> t) \<longrightarrow>
        (\<exists>d' l'. lookup (store (handle m w db rq)) b = Some d'
                 \<and> lastSeen d' = Some l' \<and> l \<le> l'))"
proof (intro conjI impI)
  show "store (get_user w db a) = db" by (rule store_get_user)
next
  assume "status (resp (post_user m w db (Some addr) (Some s) c)) = 200 \<and> s \<noteq> []"
  then have "status (resp (post_user m w db (Some addr) (Some s) c)) = 200" and "s \<noteq> []"
    by simp_all
  then show "\<exists>d' t. parseDate w s = Some t
              \<and> lookup (store (post_user m w db (Some addr) (Some s) c)) (toLowerCase addr)
                  = Some d'
              \<and> lastSeen d' = Some t"
    by (rule lastSeen_post_user_supplied)
next
  assume "status (resp (post_user m w db (Some addr) ls c)) = 200 \<and> (ls = None \<or> ls = Some [])"
  then have "status (resp (post_user m w db (Some addr) ls c)) = 200"
    and "ls = None \<or> ls = Some []"
    by simp_all
  then show "\<exists>d'. lookup (store (post_user m w db (Some addr) ls c)) (toLowerCase addr) = Some d'
                \<and> lastSeen d' = Some (now w)"
    by (rule lastSeen_post_user_clock)
next
  assume "status (resp (post_user_investment m w db (Some addr) (Some x))) = 200"
  from pushed_post_user_investment [OF this]
  show "\<exists>d'. lookup (store (post_user_investment m w db (Some addr) (Some x)))
                (toLowerCase addr) = Some d'
             \<and> lastSeen d' = Some (now w)"
    by (auto simp: push_update_lastSeen)
next
  assume "status (resp (post_invest m w db am rk (Some addr))) = 200
            \<and> addr \<noteq> [] \<and> dbFailure w = None"
  then have "status (resp (post_invest m w db am rk (Some addr))) = 200"
    and "addr \<noteq> []" and "dbFailure w = None"
    by simp_all
  from pushed_post_invest [OF this]
  show "\<exists>d'. lookup (store (post_invest m w db am rk (Some addr))) (toLowerCase addr) = Some d'
             \<and> lastSeen d' = Some (now w)"
    by (auto simp: push_update_lastSeen)
next
  assume "lookup db b = Some d \<and> lastSeen d = Some l \<and> l \<le> now w
        \<and> (\<forall>wa s' c' t. rq = PostUser wa (Some s') c' \<and> s' \<noteq> [] \<and> parseDate w s' = Some t
               \<longrightarrow> l \<le> t)"
  then have "lookup db b = Some d" and "lastSeen d = Some l" and "l \<le> now w"
    and "\<forall>wa s' c' t. rq = PostUser wa (Some s') c' \<and> s' \<noteq> [] \<and> parseDate w s' = Some t
               \<longrightarrow> l \<le> t"
    by blast+
  then show "\<exists>d' l'. lookup (store (handle m w db rq)) b = Some d'
                   \<and> lastSeen d' = Some l' \<and> l \<le> l'"
    by (rule lastSeen_monotone)
qed

theorem lastSeen_written_by_posts_witness:
  "store (get_user example_world [example_user] ''0xABC'') = [example_user]
   \<and> status (resp (post_user example_odm example_world [example_user]
                     (Some ''0xABC'') (Some ''1970-01-01T00:00:00.700Z'') None)) = 200
   \<and> parseDate example_world ''1970-01-01T00:00:00.700Z'' = Some 700
   \<and> (\<exists>d'. lookup (store (post_user example_odm example_world [example_user]
                (Some ''0xABC'') (Some ''1970-01-01T00:00:00.700Z'') None))
               (toLowerCase ''0xABC'') = Some d'
          \<and> lastSeen d' = Some 700)
   \<and> status (resp (post_user example_odm example_world [example_user]
                     (Some ''0xABC'') None None)) = 200
   \<and> (\<exists>d'. lookup (store (post_user example_odm example_world [example_user]
                (Some ''0xABC'') None None)) (toLowerCase ''0xABC'') = Some d'
          \<and> lastSeen d' = Some (now example_world))
   \<and> lookup [example_user] ''0xabc'' = Some example_user
   \<and> lastSeen example_user = Some 5 \<and> 5 \<le> now example_world
   \<and> (\<exists>d' l'. lookup (store (handle example_odm example_world [example_user]
                  (PostUser (Some ''0xABC'') (Some ''1970-01-01T00:00:00.700Z'') None)))
                ''0xabc'' = Some d'
          \<and> lastSeen d' = Some l' \<and> 5 \<le> l')"
proof -
  have h0: "status (resp (post_user example_odm example_world [example_user]
                     (Some ''0xABC'') (Some ''1970-01-01T00:00:00.700Z'') None)) = 200"
    by code_simp
  have h1: "status (resp (post_user example_odm example_world [example_user]
                     (Some ''0xABC'') None None)) = 200"
    by code_simp
  have h2: "lookup [example_user] ''0xabc'' = Some example_user"
    "lastSeen example_user = Some 5" "5 \<le> now example_world"
    by (simp_all add: lookup_def example_user_def example_world_def)
  have h3: "parseDate example_world ''1970-01-01T00:00:00.700Z'' = Some 700"
    by (simp add: example_world_def)
  have h4: "\<forall>wa s' c' t.
              PostUser (Some ''0xABC'') (Some ''1970-01-01T00:00:00.700Z'') None =
                PostUser wa (Some s') c'
              \<and> s' \<noteq> [] \<and> parseDate example_world s' = Some t \<longrightarrow> 5 \<le> t"
    using h3 by auto
  note t1 = lastSeen_written_by_posts
             [of example_world "[example_user]" "''0xABC''" example_odm "''0xABC''"
                 "''1970-01-01T00:00:00.700Z''" None None _ _ _ "''0xabc''" example_user 5
                 "PostUser (Some ''0xABC'') (Some ''1970-01-01T00:00:00.700Z'') None"]
  from t1 h0 h1 h2 h3 h4 show ?thesis by auto
qed

text \<open>
  C1. A successful \<^verbatim>\<open>POST /api/user/investment\<close>, or \<^verbatim>\<open>POST /api/invest\<close> with a
  wallet address, is claimed to append one record to the user's investment sequence.
  The code answers 200 and stores nothing: \<^verbatim>\<open>userSchema\<close> declares no
  \<^verbatim>\<open>investments\<close> path (\<^verbatim>\<open>investmentSchema\<close> is attached to nothing), so the
  \<^verbatim>\<open>$push\<close> of both handlers is removed before it reaches the store. After either
  request, answered 200, the user's stored sequence is the one it was.
\<close>

theorem investment_history_is_never_stored:
  "(status (resp (post_user_investment m w db (Some addr) (Some x))) = 200 \<longrightarrow>
      payload (resp (post_user_investment m w db (Some addr) (Some x))) =
        Message ''Investment history updated''
      \<and> (\<exists>d d'. lookup db (toLowerCase addr) = Some d
            \<and> lookup (store (post_user_investment m w db (Some addr) (Some x)))
                 (toLowerCase addr) = Some d'
            \<and> investments d' = investments d))
   \<and> (status (resp (post_invest m w db am rk (Some addr))) = 200
        \<and> addr \<noteq> [] \<and> dbFailure w = None \<longrightarrow>
      (\<exists>d'. lookup (store (post_invest m w db am rk (Some addr))) (toLowerCase addr) = Some d'
            \<and> investments d' =
                (case lookup db (toLowerCase addr) of None \<Rightarrow> [] | Some d \<Rightarrow> investments d)))"
proof (intro conjI impI)
  assume h: "status (resp (post_user_investment m w db (Some addr) (Some x))) = 200"
  then show "payload (resp (post_user_investment m w db (Some addr) (Some x))) =
               Message ''Investment history updated''"
    by (auto simp: post_user_investment_def reply_def
        split: option.splits sum.splits prod.splits if_splits)
  from pushed_post_user_investment [OF h]
  show "\<exists>d d'. lookup db (toLowerCase addr) = Some d
            \<and> lookup (store (post_user_investment m w db (Some addr) (Some x)))
                 (toLowerCase addr) = Some d'
            \<and> investments d' = investments d"
    by (auto simp: push_update_investments)
next
  assume "status (resp (post_invest m w db am rk (Some addr))) = 200
            \<and> addr \<noteq> [] \<and> dbFailure w = None"
  then have "status (resp (post_invest m w db am rk (Some addr))) = 200"
    and "addr \<noteq> []" and "dbFailure w = None"
    by simp_all
  from pushed_post_invest [OF this] obtain y where
    y: "lookup (store (post_invest m w db am rk (Some addr))) (toLowerCase addr) =
          Some (apply_update (castUpdate userSchema [PushInvestments y, SetLastSeen (now w)])
                  (case lookup db (toLowerCase addr) of
                     Some d \<Rightarrow> d
                   | None \<Rightarrow> inserted m w invest_upsert (toLowerCase addr)))"
    by blast
  have i: "investments (inserted m w invest_upsert (toLowerCase addr)) = []"
    by (simp add: inserted_def Let_def)
  have "investments
          (apply_update (castUpdate userSchema [PushInvestments y, SetLastSeen (now w)])
             (case lookup db (toLowerCase addr) of
                Some d \<Rightarrow> d
              | None \<Rightarrow> inserted m w invest_upsert (toLowerCase addr))) =
        (case lookup db (toLowerCase addr) of None \<Rightarrow> [] | Some d \<Rightarrow> investments d)"
    by (simp add: push_update_investments i split: option.splits)
  with y show "\<exists>d'. lookup (store (post_invest m w db am rk (Some addr))) (toLowerCase addr) = Some d'
            \<and> investments d' =
                (case lookup db (toLowerCase addr) of None \<Rightarrow> [] | Some d \<Rightarrow> investments d)"
    by simp
qed

theorem investment_history_is_never_stored_witness:
  "resp (post_user_investment example_odm example_world [example_user]
           (Some ''0xABC'') (Some example_investment)) =
     \<lparr>status = 200, success = True, payload = Message ''Investment history updated''\<rparr>
   \<and> map investments (store (post_user_investment example_odm example_world [example_user]
           (Some ''0xABC'') (Some example_investment))) = [[]]
   \<and> resp (post_invest example_odm example_world [example_user]
           (Some (Num 100)) (Some ''low'') (Some ''0xABC'')) =
       \<lparr>status = 200, success = True, payload = Invested (Num 100) ''low'' ''0xfeed'' 1000\<rparr>
   \<and> dbFailure example_world = None
   \<and> map investments (store (post_invest example_odm example_world [example_user]
           (Some (Num 100)) (Some ''low'') (Some ''0xABC''))) = [[]]
   \<and> (\<exists>d d'. lookup [example_user] (toLowerCase ''0xABC'') = Some d
          \<and> lookup (store (post_user_investment example_odm example_world [example_user]
                (Some ''0xABC'') (Some example_investment))) (toLowerCase ''0xABC'') = Some d'
          \<and> investments d' = investments d)"
proof -
  have h1: "resp (post_user_investment example_odm example_world [example_user]
           (Some ''0xABC'') (Some example_investment)) =
     \<lparr>status = 200, success = True, payload = Message ''Investment history updated''\<rparr>"
    by code_simp
  have h2: "map investments (store (post_user_investment example_odm example_world [example_user]
           (Some ''0xABC'') (Some example_investment))) = [[]]"
    by code_simp
  have h3: "resp (post_invest example_odm example_world [example_user]
           (Some (Num 100)) (Some ''low'') (Some ''0xABC'')) =
       \<lparr>status = 200, success = True, payload = Invested (Num 100) ''low'' ''0xfeed'' 1000\<rparr>"
    by code_simp
  have h4: "map investments (store (post_invest example_odm example_world [example_user]
           (Some (Num 100)) (Some ''low'') (Some ''0xABC''))) = [[]]"
    by code_simp
  have h5: "dbFailure example_world = None" by (simp add: example_world_def)
  note t = investment_history_is_never_stored
             [of example_odm example_world "[example_user]" "''0xABC''" example_investment]
  from t h1 h2 h3 h4 h5 show ?thesis by simp
qed

end
